theory Spec2Isabelle
  imports Main
begin

section \<open>JavaScript values used by the runners\<close>

text \<open>
  The two source files are \<^verbatim>\<open>src/run-code/index.js\<close> (the pipeline \<^verbatim>\<open>runCode\<close>)
  and the stand-alone Java runner (\<^verbatim>\<open>executeJava\<close>). Strings are character lists. A
  value that may be \<^verbatim>\<open>undefined\<close> or \<^verbatim>\<open>null\<close> is an option.
\<close>

definition truthy :: "string option \<Rightarrow> bool" where
  \<comment> \<open>\<^verbatim>\<open>if (x)\<close> on a string that may be undefined or null: the empty string is falsy.\<close>
  "truthy v = (case v of None \<Rightarrow> False | Some s \<Rightarrow> s \<noteq> [])"

definition js_or :: "string \<Rightarrow> string \<Rightarrow> string" where
  \<comment> \<open>\<^verbatim>\<open>a || b\<close> on strings.\<close>
  "js_or a b = (if a = [] then b else a)"

definition args_or_empty :: "string list option \<Rightarrow> string list" where
  \<comment> \<open>\<^verbatim>\<open>args || []\<close>: every array is truthy.\<close>
  "args_or_empty a = (case a of None \<Rightarrow> [] | Some xs \<Rightarrow> xs)"

fun join :: "string \<Rightarrow> string list \<Rightarrow> string" where
  "join sep [] = []"
| "join sep [x] = x"
| "join sep (x # y # ys) = x @ sep @ join sep (y # ys)"

section \<open>Child processes, their events and the observable actions\<close>

text \<open>
  A spawned child talks to its listeners through events. The environment's schedule is a
  list of events in the order the event loop delivers them. \<open>Timer_Fired\<close> is the moment the
  deadline of \<^verbatim>\<open>setTimeout\<close> elapses; its callback runs only while the timer is pending.
  An \<^verbatim>\<open>exit\<close> or \<^verbatim>\<open>close\<close> event carries the exit code (null when a signal ended
  the process) and the signal (null otherwise). \<open>Stdin_Error\<close> is an \<^verbatim>\<open>error\<close> event of the
  child's stdin stream (a write that fails later, as with EPIPE): no runner puts a listener
  on that stream, so the emitter raises it as an uncaught exception and the process ends.
  The models follow a run until its promise is settled and the pipeline goes on: an event
  that arrives later finds the listeners' guards closed, and an error of the stdin stream
  that arrives later is not followed by the models.
\<close>

datatype event =
    Stdout_Data string
  | Stderr_Data string
  | Error_Event string
  | Exit_Event "int option" "string option"
  | Close_Event "int option" "string option"
  | Stdin_Error string
  | Timer_Fired

text \<open>
  The calls a runner makes on its collaborators, in order. \<open>Kill_Threw\<close> is a call of
  \<^verbatim>\<open>kill("SIGKILL")\<close> that raised and whose exception was caught.
\<close>

datatype action =
    Create_Code_File string string
  | Spawn string "string list"
  | Stdin_Write string
  | Stdin_End
  | Kill
  | Kill_Threw
  | Clear_Timeout
  | Remove_Code_File string string "string option"


fun is_removal :: "action \<Rightarrow> bool" where
  "is_removal (Remove_Code_File j l x) = True"
| "is_removal _ = False"

fun is_creation :: "action \<Rightarrow> bool" where
  "is_creation (Create_Code_File l c) = True"
| "is_creation _ = False"

fun is_kill :: "action \<Rightarrow> bool" where
  "is_kill Kill = True"
| "is_kill Kill_Threw = True"
| "is_kill _ = False"

fun stdout_of :: "event list \<Rightarrow> string" where
  "stdout_of [] = []"
| "stdout_of (Stdout_Data d # es) = d @ stdout_of es"
| "stdout_of (e # es) = stdout_of es"

fun stderr_of :: "event list \<Rightarrow> string" where
  "stderr_of [] = []"
| "stderr_of (Stderr_Data d # es) = d @ stderr_of es"
| "stderr_of (e # es) = stderr_of es"

section \<open>The compile phase of the pipeline\<close>

text \<open>
  The object the compile promise is rejected with:
  \<^verbatim>\<open>{status: 200, output: "", error: ..., language}\<close>.
\<close>

record reject_object =
  rej_status :: int
  rej_output :: string
  rej_error :: string
  rej_language :: string

text \<open>
  An Error object that \<^verbatim>\<open>spawn\<close> throws, as the spread \<^verbatim>\<open>{...err}\<close> sees it: its
  enumerable own properties (\<^verbatim>\<open>errno\<close>, \<^verbatim>\<open>code\<close>, \<^verbatim>\<open>syscall\<close>, ...) with their
  values printed. The message of an Error is not enumerable.
\<close>

type_synonym own_properties = "(string \<times> string) list"

text \<open>
  The compile promise is resolved, rejected by a call of \<^verbatim>\<open>reject\<close> with an object, or
  rejected by the promise constructor with the Error thrown inside the executor.
\<close>

datatype compile_result =
    Compile_Resolved
  | Compile_Rejected reject_object
  | Compile_Threw own_properties

text \<open>
  The variables of the promise executor (\<^verbatim>\<open>compileError\<close>, \<^verbatim>\<open>compileOutput\<close>,
  \<^verbatim>\<open>isResolved\<close>, \<^verbatim>\<open>compileTimer\<close>), the promise itself, the number of calls of
  \<^verbatim>\<open>resolve\<close> or \<^verbatim>\<open>reject\<close> so far, the actions so far, and the uncaught exception
  that ended the process, if any.
\<close>

record compile_state =
  compileError :: string
  compileOutput :: string
  compile_isResolved :: bool
  compileTimer :: bool
  compile_promise :: "compile_result option"
  compile_calls :: nat
  compile_actions :: "action list"
  compile_uncaught :: "string option"

definition compile_settle :: "compile_result \<Rightarrow> compile_state \<Rightarrow> compile_state" where
  \<comment> \<open>A call of \<^verbatim>\<open>resolve\<close> or \<^verbatim>\<open>reject\<close>: only the first call settles a promise.\<close>
  "compile_settle r s =
     s\<lparr>compile_promise := (case compile_promise s of None \<Rightarrow> Some r | Some r' \<Rightarrow> Some r'),
       compile_calls := Suc (compile_calls s)\<rparr>"

definition compile_rejection :: "string \<Rightarrow> string \<Rightarrow> compile_result" where
  "compile_rejection msg language =
     Compile_Rejected \<lparr>rej_status = 200, rej_output = [], rej_error = msg, rej_language = language\<rparr>"

fun compile_listener :: "string \<Rightarrow> event \<Rightarrow> compile_state \<Rightarrow> compile_state" where
  "compile_listener language Timer_Fired s =
     (if compileTimer s then
        (if \<not> compile_isResolved s then
           compile_settle (compile_rejection ''Compilation timed out'' language)
             (s\<lparr>compileTimer := False, compile_isResolved := True,
                compile_actions := compile_actions s @ [Kill]\<rparr>)
         else s\<lparr>compileTimer := False\<rparr>)
      else s)"
| "compile_listener language (Stdout_Data d) s = s\<lparr>compileOutput := compileOutput s @ d\<rparr>"
| "compile_listener language (Stderr_Data d) s = s\<lparr>compileError := compileError s @ d\<rparr>"
| "compile_listener language (Error_Event msg) s =
     (if \<not> compile_isResolved s then
        compile_settle (compile_rejection (''Compilation error: '' @ msg) language)
          (s\<lparr>compile_isResolved := True, compileTimer := False,
             compile_actions := compile_actions s @ [Clear_Timeout]\<rparr>)
      else s)"
| "compile_listener language (Exit_Event code signal) s =
     (if \<not> compile_isResolved s then
        (let s' = s\<lparr>compile_isResolved := True, compileTimer := False,
                    compile_actions := compile_actions s @ [Clear_Timeout]\<rparr>
         in if code \<noteq> Some 0 then
              compile_settle
                (compile_rejection
                   (js_or (compileError s') (js_or (compileOutput s') ''Compilation failed''))
                   language) s'
            else compile_settle Compile_Resolved s')
      else s)"
| "compile_listener language (Close_Event code signal) s = s"
| "compile_listener language (Stdin_Error msg) s =
     (if compile_promise s = None then s\<lparr>compile_uncaught := Some msg\<rparr> else s)"

definition compile_on :: "string \<Rightarrow> event \<Rightarrow> compile_state \<Rightarrow> compile_state" where
  \<comment> \<open>Nothing runs after an uncaught exception.\<close>
  "compile_on language e s = (if compile_uncaught s \<noteq> None then s else compile_listener language e s)"

fun compile_events :: "string \<Rightarrow> event list \<Rightarrow> compile_state \<Rightarrow> compile_state" where
  "compile_events language [] s = s"
| "compile_events language (e # es) s = compile_events language es (compile_on language e s)"

definition compile_spawned :: "string \<Rightarrow> string list \<Rightarrow> compile_state" where
  \<comment> \<open>The state when the executor returns: the child is spawned, the 5 second timer is pending.
      The timer's callback calls \<^verbatim>\<open>kill("SIGKILL")\<close> outside any \<^verbatim>\<open>try\<close>.\<close>
  "compile_spawned cmd args =
     \<lparr>compileError = [], compileOutput = [], compile_isResolved = False, compileTimer = True,
      compile_promise = None, compile_calls = 0, compile_actions = [Spawn cmd args],
      compile_uncaught = None\<rparr>"

text \<open>
  What \<^verbatim>\<open>spawn\<close> does in the compile phase: it returns a child with its events, or it
  throws. The call sits in the promise executor outside any \<^verbatim>\<open>try\<close>, so a throw leaves
  the executor before the timer is set and the promise is rejected with the Error.
\<close>

datatype compile_spawn = Compile_Spawn_Throws own_properties | Compile_Spawned "event list"

definition compile_threw :: "string \<Rightarrow> string list \<Rightarrow> own_properties \<Rightarrow> compile_state" where
  "compile_threw cmd args props =
     \<lparr>compileError = [], compileOutput = [], compile_isResolved = False, compileTimer = False,
      compile_promise = Some (Compile_Threw props), compile_calls = 0,
      compile_actions = [Spawn cmd args], compile_uncaught = None\<rparr>"

definition compile_schedule :: "event list \<Rightarrow> event list" where
  \<comment> \<open>Whatever the child does, the deadline elapses in the end.\<close>
  "compile_schedule evs = evs @ [Timer_Fired]"

definition compile_run :: "string \<Rightarrow> string \<Rightarrow> string list option \<Rightarrow> compile_spawn \<Rightarrow> compile_state" where
  "compile_run language cmd args sp =
     (case sp of
        Compile_Spawn_Throws props \<Rightarrow> compile_threw cmd (args_or_empty args) props
      | Compile_Spawned evs \<Rightarrow>
          compile_events language (compile_schedule evs)
            (compile_spawned cmd (args_or_empty args)))"

section \<open>The execute phase of the pipeline\<close>

text \<open>The object the execute promise is resolved with: \<^verbatim>\<open>{output, error}\<close>.\<close>

record exec_result =
  res_output :: string
  res_error :: string

text \<open>
  What \<^verbatim>\<open>spawn\<close> does in the execute phase, where the source guards it with
  \<^verbatim>\<open>try\<close>: it raises an exception with a message, or it returns a child. The child has
  its events; \<open>kill_throws\<close> says whether \<^verbatim>\<open>kill("SIGKILL")\<close> raises on it and
  \<open>stdin_write_throws\<close> whether \<^verbatim>\<open>stdin.write\<close> does.
\<close>

record child =
  events :: "event list"
  kill_throws :: bool
  stdin_write_throws :: bool

datatype spawn_result = Spawn_Throws string | Spawned child

record exec_state =
  exec_output :: string
  exec_error :: string
  exec_isResolved :: bool
  exec_timer :: bool
  exec_promise :: "exec_result option"
  exec_calls :: nat
  exec_actions :: "action list"
  exec_uncaught :: "string option"

definition exec_settle :: "exec_result \<Rightarrow> exec_state \<Rightarrow> exec_state" where
  "exec_settle r s =
     s\<lparr>exec_promise := (case exec_promise s of None \<Rightarrow> Some r | Some r' \<Rightarrow> Some r'),
       exec_calls := Suc (exec_calls s)\<rparr>"

definition timeout_notice :: string where
  \<comment> \<open>\<^verbatim>\<open>"\nExecution timed out after " + timeout + " seconds"\<close> with \<^verbatim>\<open>timeout = 10\<close>.\<close>
  "timeout_notice = CHR 0x0A # ''Execution timed out after 10 seconds''"

definition signal_notice :: "string \<Rightarrow> string" where
  "signal_notice signal = CHR 0x0A # ''Process terminated by signal: '' @ signal"

definition try_kill :: "bool \<Rightarrow> action" where
  \<comment> \<open>\<^verbatim>\<open>try { executeCode.kill("SIGKILL") } catch (e) { }\<close>\<close>
  "try_kill throws = (if throws then Kill_Threw else Kill)"

fun exec_listener :: "bool \<Rightarrow> event \<Rightarrow> exec_state \<Rightarrow> exec_state" where
  "exec_listener kt Timer_Fired s =
     (if exec_timer s then
        (if \<not> exec_isResolved s then
           exec_settle \<lparr>res_output = exec_output s, res_error = js_or (exec_error s) [] @ timeout_notice\<rparr>
             (s\<lparr>exec_timer := False, exec_isResolved := True,
                exec_actions := exec_actions s @ [try_kill kt]\<rparr>)
         else s\<lparr>exec_timer := False\<rparr>)
      else s)"
| "exec_listener kt (Error_Event msg) s =
     (if \<not> exec_isResolved s then
        exec_settle \<lparr>res_output = [], res_error = ''Runtime error: '' @ msg\<rparr>
          (s\<lparr>exec_isResolved := True, exec_timer := False,
             exec_actions := exec_actions s @ [Clear_Timeout]\<rparr>)
      else s)"
| "exec_listener kt (Stdout_Data d) s = s\<lparr>exec_output := exec_output s @ d\<rparr>"
| "exec_listener kt (Stderr_Data d) s = s\<lparr>exec_error := exec_error s @ d\<rparr>"
| "exec_listener kt (Close_Event code signal) s =
     (if \<not> exec_isResolved s then
        (let s' = s\<lparr>exec_isResolved := True, exec_timer := False,
                    exec_actions := exec_actions s @ [Clear_Timeout]\<rparr>;
             s'' = (if truthy signal
                    then s'\<lparr>exec_error := exec_error s' @ signal_notice (the signal)\<rparr> else s')
         in exec_settle \<lparr>res_output = exec_output s'', res_error = exec_error s''\<rparr> s'')
      else s)"
| "exec_listener kt (Exit_Event code signal) s = s"
| "exec_listener kt (Stdin_Error msg) s =
     (if exec_promise s = None then s\<lparr>exec_uncaught := Some msg\<rparr> else s)"

definition exec_on :: "bool \<Rightarrow> event \<Rightarrow> exec_state \<Rightarrow> exec_state" where
  \<comment> \<open>Nothing runs after an uncaught exception.\<close>
  "exec_on kt e s = (if exec_uncaught s \<noteq> None then s else exec_listener kt e s)"

fun exec_events :: "bool \<Rightarrow> event list \<Rightarrow> exec_state \<Rightarrow> exec_state" where
  "exec_events kt [] s = s"
| "exec_events kt (e # es) s = exec_events kt es (exec_on kt e s)"

definition exec_init :: exec_state where
  "exec_init =
     \<lparr>exec_output = [], exec_error = [], exec_isResolved = False, exec_timer = False,
      exec_promise = None, exec_calls = 0, exec_actions = [], exec_uncaught = None\<rparr>"

definition write_input :: "string \<Rightarrow> bool \<Rightarrow> action list" where
  \<comment> \<open>Both branches sit in a \<^verbatim>\<open>try\<close> whose handler is empty: a \<^verbatim>\<open>write\<close> that raises
      at the call skips the \<^verbatim>\<open>end\<close> after it and nothing else. A write that fails later
      is the event \<open>Stdin_Error\<close> of the schedule, which the \<^verbatim>\<open>try\<close> does not see.\<close>
  "write_input input throws =
     (if input \<noteq> [] then (if throws then [Stdin_Write input] else [Stdin_Write input, Stdin_End])
      else [Stdin_End])"

definition exec_spawned :: "string \<Rightarrow> string list \<Rightarrow> string \<Rightarrow> child \<Rightarrow> exec_state" where
  \<comment> \<open>The state when the executor returns with its listeners in place and the timer pending.\<close>
  "exec_spawned cmd args input ch =
     exec_init\<lparr>exec_timer := True,
               exec_actions := Spawn cmd args # write_input input (stdin_write_throws ch)\<rparr>"

definition exec_schedule :: "child \<Rightarrow> event list" where
  "exec_schedule ch = events ch @ [Timer_Fired]"

definition exec_run :: "string option \<Rightarrow> string list option \<Rightarrow> string \<Rightarrow> spawn_result \<Rightarrow> exec_state" where
  \<comment> \<open>The executor of the execute promise. Past the first test the command is truthy,
      hence present, where \<open>the\<close> reads it.\<close>
  "exec_run executeCodeCommand executionArgs input sp =
     (if \<not> truthy executeCodeCommand then
        exec_settle \<lparr>res_output = [], res_error = ''Executable not found''\<rparr> exec_init
      else
        (case sp of
           Spawn_Throws msg \<Rightarrow>
             exec_settle \<lparr>res_output = [], res_error = ''Runtime error: '' @ msg\<rparr>
               (exec_init\<lparr>exec_actions := [Spawn (the executeCodeCommand) (args_or_empty executionArgs)]\<rparr>)
         | Spawned ch \<Rightarrow>
             exec_events (kill_throws ch) (exec_schedule ch)
               (exec_spawned (the executeCodeCommand) (args_or_empty executionArgs) input ch)))"

section \<open>The pipeline \<^verbatim>\<open>runCode\<close>\<close>

record job =
  job_language :: string
  job_code :: string
  job_input :: string

record command_spec =
  compileCodeCommand :: "string option"
  compilationArgs :: "string list option"
  executeCodeCommand :: "string option"
  executionArgs :: "string list option"
  outputExt :: "string option"

text \<open>
  The collaborators that are required from other modules (\<^verbatim>\<open>supportedLanguages\<close>,
  \<^verbatim>\<open>createCodeFile\<close>, \<^verbatim>\<open>commandMap\<close>, \<^verbatim>\<open>info\<close>) are parameters, and so is what the
  two children do. \<^verbatim>\<open>removeCodeFile\<close> returns nothing and is only recorded as an action.
  The source awaits the collaborators outside any \<^verbatim>\<open>try\<close>; they are taken to return.
\<close>

record 'i env =
  supportedLanguages :: "string list"
  createCodeFile :: "string \<Rightarrow> string \<Rightarrow> string"
  commandMap :: "string \<Rightarrow> string \<Rightarrow> command_spec"
  language_info :: "string \<Rightarrow> 'i"
  compile_spawn :: compile_spawn
  execute_spawn :: spawn_result

text \<open>The object thrown on a request error: \<^verbatim>\<open>{status: 400, error: ...}\<close>.\<close>

record thrown =
  thrown_status :: int
  thrown_error :: string

text \<open>
  The object returned, with the keys \<^verbatim>\<open>status\<close>, \<^verbatim>\<open>output\<close>, \<^verbatim>\<open>error\<close>,
  \<^verbatim>\<open>language\<close> and \<^verbatim>\<open>info\<close> (the field names carry a prefix, \<open>output\<close> being a
  keyword of Isabelle). The compile-failure object has the key \<^verbatim>\<open>status\<close>, the object
  built after the execute phase has not.
\<close>

record 'i response =
  response_status :: "int option"
  response_output :: string
  response_error :: string
  response_language :: string
  response_info :: 'i

text \<open>
  How a call of \<^verbatim>\<open>runCode\<close> ends: it throws; it returns one of the two objects above; it
  returns \<^verbatim>\<open>{...err, info}\<close> for an Error thrown by the compile spawn, that is the Error's
  enumerable own properties and the metadata; it waits for ever on a promise that is never
  settled; or the process ends with an uncaught exception while it waits.
\<close>

datatype 'i outcome =
    Raised thrown
  | Returned "'i response"
  | Returned_Error_Object own_properties 'i
  | Pending
  | Crashed string

definition no_code :: thrown where
  "no_code = \<lparr>thrown_status = 400, thrown_error = ''No Code found to execute.''\<rparr>"

definition invalid_language :: "string list \<Rightarrow> thrown" where
  "invalid_language langs =
     \<lparr>thrown_status = 400,
      thrown_error =
        ''Please enter a valid language. Check documentation for more details: https://github.com/Jaagrav/CodeX-API#readme. The languages currently supported are: ''
        @ join '', '' langs @ ''.''\<rparr>"

definition removal :: "string \<Rightarrow> job \<Rightarrow> command_spec \<Rightarrow> action" where
  "removal jobID j spec = Remove_Code_File jobID (job_language j) (outputExt spec)"

definition execute_and_respond ::
  "'i env \<Rightarrow> job \<Rightarrow> string \<Rightarrow> command_spec \<Rightarrow> action list \<Rightarrow> 'i outcome \<times> action list" where
  "execute_and_respond env j jobID spec acts =
     (let s = exec_run (executeCodeCommand spec) (executionArgs spec) (job_input j) (execute_spawn env)
      in case exec_uncaught s of
           Some msg \<Rightarrow> (Crashed msg, acts @ exec_actions s)
         | None \<Rightarrow>
        (case exec_promise s of
           None \<Rightarrow> (Pending, acts @ exec_actions s)
         | Some result \<Rightarrow>
             (Returned \<lparr>response_status = None, response_output = res_output result,
                        response_error = res_error result,
                        response_language = job_language j,
                        response_info = language_info env (job_language j)\<rparr>,
              acts @ exec_actions s @ [removal jobID j spec])))"

definition compile_failed_response :: "'i env \<Rightarrow> job \<Rightarrow> reject_object \<Rightarrow> 'i response" where
  \<comment> \<open>\<^verbatim>\<open>{...compileResult, info: await info(language)}\<close>\<close>
  "compile_failed_response env j compileResult =
     \<lparr>response_status = Some (rej_status compileResult),
      response_output = rej_output compileResult,
      response_error = rej_error compileResult,
      response_language = rej_language compileResult,
      response_info = language_info env (job_language j)\<rparr>"

definition runCode :: "'i env \<Rightarrow> job \<Rightarrow> 'i outcome \<times> action list" where
  \<comment> \<open>The outcome and the actions made. The compile command is read with \<open>the\<close> only where
      it is truthy.\<close>
  "runCode env j =
     (if job_code j = [] then (Raised no_code, [])
      else if job_language j \<notin> set (supportedLanguages env)
      then (Raised (invalid_language (supportedLanguages env)), [])
      else
        (let jobID = createCodeFile env (job_language j) (job_code j);
             spec = commandMap env jobID (job_language j);
             acts = [Create_Code_File (job_language j) (job_code j)]
         in if truthy (compileCodeCommand spec) then
              (let c = compile_run (job_language j) (the (compileCodeCommand spec))
                         (compilationArgs spec) (compile_spawn env)
               in case compile_uncaught c of
                    Some msg \<Rightarrow> (Crashed msg, acts @ compile_actions c)
                  | None \<Rightarrow>
                 (case compile_promise c of
                    None \<Rightarrow> (Pending, acts @ compile_actions c)
                  | Some (Compile_Rejected compileResult) \<Rightarrow>
                      (Returned (compile_failed_response env j compileResult),
                       acts @ compile_actions c @ [removal jobID j spec])
                  | Some (Compile_Threw props) \<Rightarrow>
                      (Returned_Error_Object props (language_info env (job_language j)),
                       acts @ compile_actions c @ [removal jobID j spec])
                  | Some Compile_Resolved \<Rightarrow>
                      execute_and_respond env j jobID spec (acts @ compile_actions c)))
            else execute_and_respond env j jobID spec acts))"

section \<open>The stand-alone Java runner\<close>

text \<open>
  The promise of the Java runner is resolved with the output string or rejected with a
  string (\<open>Inr\<close> and \<open>Inl\<close>). It has no \<^verbatim>\<open>isResolved\<close> flag, never clears its timer and
  registers no listener for \<^verbatim>\<open>error\<close> or \<^verbatim>\<open>close\<close>, nor for the \<^verbatim>\<open>error\<close> of the
  child's stdin: an \<^verbatim>\<open>error\<close> event without a listener is raised by the emitter as an
  uncaught exception.
\<close>

record java_state =
  outputString :: string
  errorString :: string
  java_promise :: "(string + string) option"
  java_timer :: bool
  java_uncaught :: "string option"
  java_actions :: "action list"

definition java_settle :: "string + string \<Rightarrow> java_state \<Rightarrow> java_state" where
  "java_settle r s =
     s\<lparr>java_promise := (case java_promise s of None \<Rightarrow> Some r | Some r' \<Rightarrow> Some r')\<rparr>"

definition java_timeout_message :: string where
  \<comment> \<open>The template string with \<^verbatim>\<open>timeout = 8\<close>.\<close>
  "java_timeout_message =
     ''Error: Timed Out. Your code took too long to execute, over 8 seconds.''"

fun java_listener :: "event \<Rightarrow> java_state \<Rightarrow> java_state" where
  "java_listener (Stdout_Data d) s = s\<lparr>outputString := outputString s @ d\<rparr>"
| "java_listener (Stderr_Data d) s = s\<lparr>errorString := errorString s @ d\<rparr>"
| "java_listener (Exit_Event code signal) s =
     java_settle (Inr (outputString s))
       (if errorString s \<noteq> [] then java_settle (Inl (errorString s)) s else s)"
| "java_listener Timer_Fired s =
     (if java_timer s then java_settle (Inl java_timeout_message) (s\<lparr>java_timer := False\<rparr>)
      else s)"
| "java_listener (Error_Event msg) s =
     (if java_promise s = None then s\<lparr>java_uncaught := Some msg\<rparr> else s)"
| "java_listener (Close_Event code signal) s = s"
| "java_listener (Stdin_Error msg) s =
     (if java_promise s = None then s\<lparr>java_uncaught := Some msg\<rparr> else s)"

definition java_on :: "event \<Rightarrow> java_state \<Rightarrow> java_state" where
  \<comment> \<open>Nothing runs after an uncaught exception.\<close>
  "java_on e s = (if java_uncaught s \<noteq> None then s else java_listener e s)"

fun java_events :: "event list \<Rightarrow> java_state \<Rightarrow> java_state" where
  "java_events [] s = s"
| "java_events (e # es) s = java_events es (java_on e s)"

definition java_spawned :: "string \<Rightarrow> string option \<Rightarrow> java_state" where
  \<comment> \<open>\<^verbatim>\<open>if (inputs) { write; end }\<close>: without inputs the child's stdin stays open.\<close>
  "java_spawned file inputs =
     \<lparr>outputString = [], errorString = [], java_promise = None, java_timer = True,
      java_uncaught = None,
      java_actions = Spawn ''java'' [file]
        # (if truthy inputs then [Stdin_Write (the inputs), Stdin_End] else [])\<rparr>"

text \<open>
  The object returned: \<^verbatim>\<open>{success: true, timestamp, output}\<close> or
  \<^verbatim>\<open>{success: false, timestamp, error}\<close>.
\<close>

record 't java_response =
  success :: bool
  timestamp :: 't
  java_output :: "string option"
  java_error :: "string option"

datatype 't java_outcome = Java_Returned "'t java_response" | Java_Uncaught string | Java_Pending

definition executeJava ::
  "(string \<Rightarrow> string) \<Rightarrow> 't \<Rightarrow> string \<Rightarrow> string option \<Rightarrow> event list
     \<Rightarrow> 't java_outcome \<times> action list" where
  \<comment> \<open>\<open>codes_path\<close> is \<^verbatim>\<open>path.join(__dirname, "../codes/" + codeFile)\<close>, \<open>now\<close> is
      \<^verbatim>\<open>new Date()\<close>, \<open>evs\<close> is what the child does.\<close>
  "executeJava codes_path now codeFile inputs evs =
     (let s = java_events (evs @ [Timer_Fired]) (java_spawned (codes_path codeFile) inputs)
      in (case java_uncaught s of
            Some msg \<Rightarrow> Java_Uncaught msg
          | None \<Rightarrow>
              (case java_promise s of
                 None \<Rightarrow> Java_Pending
               | Some (Inr v) \<Rightarrow>
                   Java_Returned \<lparr>success = True, timestamp = now, java_output = Some v,
                                  java_error = None\<rparr>
               | Some (Inl e) \<Rightarrow>
                   Java_Returned \<lparr>success = False, timestamp = now, java_output = None,
                                  java_error = Some e\<rparr>),
          java_actions s))"

section \<open>Predicates on schedules\<close>

text \<open>
  The events that end the wait for a pending promise: the compile phase listens to
  \<^verbatim>\<open>error\<close> and \<^verbatim>\<open>exit\<close>, the execute phase to \<^verbatim>\<open>error\<close> and \<^verbatim>\<open>close\<close>, the
  Java runner to \<^verbatim>\<open>exit\<close>; each has its timer; and an error of the stdin stream ends the
  process.
\<close>

fun settles_compile :: "event \<Rightarrow> bool" where
  "settles_compile Timer_Fired = True"
| "settles_compile (Error_Event msg) = True"
| "settles_compile (Exit_Event code signal) = True"
| "settles_compile (Stdin_Error msg) = True"
| "settles_compile e = False"

fun settles_exec :: "event \<Rightarrow> bool" where
  "settles_exec Timer_Fired = True"
| "settles_exec (Error_Event msg) = True"
| "settles_exec (Close_Event code signal) = True"
| "settles_exec (Stdin_Error msg) = True"
| "settles_exec e = False"

fun is_data :: "event \<Rightarrow> bool" where
  "is_data (Stdout_Data d) = True"
| "is_data (Stderr_Data d) = True"
| "is_data e = False"

definition compile_inv :: "compile_state \<Rightarrow> bool" where
  \<comment> \<open>The flag \<^verbatim>\<open>isResolved\<close> tells whether the promise is settled, which no uncaught
      exception preceded; until then no call of \<^verbatim>\<open>resolve\<close> or \<^verbatim>\<open>reject\<close> was made
      and the timer is pending.\<close>
  "compile_inv s =
     (if compile_isResolved s
      then compile_promise s \<noteq> None \<and> compile_calls s = 1 \<and> compile_uncaught s = None
      else compile_promise s = None \<and> compile_calls s = 0 \<and> compileTimer s)"

definition exec_inv :: "exec_state \<Rightarrow> bool" where
  "exec_inv s =
     (if exec_isResolved s
      then exec_promise s \<noteq> None \<and> exec_calls s = 1 \<and> exec_uncaught s = None
      else exec_promise s = None \<and> exec_calls s = 0 \<and> exec_timer s)"

section \<open>A concrete registry and concrete jobs\<close>

text \<open>
  A registry with a compiled and an interpreted language, and a language whose entry has no
  execute command; the environment is completed by what the two children do.
\<close>

definition example_commands :: "string \<Rightarrow> string \<Rightarrow> command_spec" where
  "example_commands jobID l =
     (if l = ''c'' then
        \<lparr>compileCodeCommand = Some ''gcc'', compilationArgs = Some [jobID @ ''.c''],
         executeCodeCommand = Some (jobID @ ''.out''), executionArgs = None,
         outputExt = Some ''out''\<rparr>
      else if l = ''py'' then
        \<lparr>compileCodeCommand = None, compilationArgs = None,
         executeCodeCommand = Some ''python3'', executionArgs = Some [jobID @ ''.py''],
         outputExt = None\<rparr>
      else
        \<lparr>compileCodeCommand = None, compilationArgs = None,
         executeCodeCommand = None, executionArgs = None, outputExt = None\<rparr>)"

definition example_env :: "event list \<Rightarrow> spawn_result \<Rightarrow> string env" where
  "example_env compile_evs sp =
     \<lparr>supportedLanguages = [''c'', ''py'', ''txt''],
      createCodeFile = (\<lambda>l c. ''job1''),
      commandMap = example_commands,
      language_info = (\<lambda>l. ''about '' @ l),
      compile_spawn = Compile_Spawned compile_evs,
      execute_spawn = sp\<rparr>"

definition example_child :: "event list \<Rightarrow> spawn_result" where
  "example_child evs = Spawned \<lparr>events = evs, kill_throws = False, stdin_write_throws = False\<rparr>"

definition c_job :: job where
  "c_job = \<lparr>job_language = ''c'', job_code = ''int main(){}'', job_input = []\<rparr>"

definition py_job :: job where
  "py_job = \<lparr>job_language = ''py'', job_code = ''print(1)'', job_input = ''7''\<rparr>"

definition txt_job :: job where
  "txt_job = \<lparr>job_language = ''txt'', job_code = ''hello'', job_input = []\<rparr>"

definition empty_job :: job where
  "empty_job = \<lparr>job_language = ''py'', job_code = [], job_input = []\<rparr>"

definition ruby_job :: job where
  "ruby_job = \<lparr>job_language = ''ruby'', job_code = ''puts 1'', job_input = []\<rparr>"

section \<open>The values a run of the pipeline passes through\<close>

abbreviation jobID_of :: "'i env \<Rightarrow> job \<Rightarrow> string" where
  "jobID_of env j \<equiv> createCodeFile env (job_language j) (job_code j)"

abbreviation spec_of :: "'i env \<Rightarrow> job \<Rightarrow> command_spec" where
  "spec_of env j \<equiv> commandMap env (jobID_of env j) (job_language j)"

definition valid_job :: "'i env \<Rightarrow> job \<Rightarrow> bool" where
  "valid_job env j = (job_code j \<noteq> [] \<and> job_language j \<in> set (supportedLanguages env))"

definition compile_of :: "'i env \<Rightarrow> job \<Rightarrow> compile_state" where
  \<comment> \<open>The compile promise of a job whose language has a compile command.\<close>
  "compile_of env j =
     compile_run (job_language j) (the (compileCodeCommand (spec_of env j)))
       (compilationArgs (spec_of env j)) (compile_spawn env)"

definition exec_of :: "'i env \<Rightarrow> job \<Rightarrow> exec_state" where
  "exec_of env j =
     exec_run (executeCodeCommand (spec_of env j)) (executionArgs (spec_of env j))
       (job_input j) (execute_spawn env)"


definition reaches_execute :: "'i env \<Rightarrow> job \<Rightarrow> bool" where
  \<comment> \<open>The job gets to the execute phase: no compile command, or the compile promise resolved.\<close>
  "reaches_execute env j =
     (valid_job env j \<and>
      (truthy (compileCodeCommand (spec_of env j)) \<longrightarrow>
         compile_promise (compile_of env j) = Some Compile_Resolved))"





text \<open>A program that prints, fails and exits with code 1, and where the Java runner keeps its files.\<close>

definition crash_events :: "event list" where
  "crash_events = [Stdout_Data ''partial'', Stderr_Data ''Exception in thread main'',
                   Exit_Event (Some 1) None, Close_Event (Some 1) None]"

definition codes_dir :: "string \<Rightarrow> string" where
  "codes_dir file = ''/app/codes/'' @ file"


fun exec_verdict :: "event list \<Rightarrow> event \<Rightarrow> exec_result option" where
  "exec_verdict pre Timer_Fired =
     Some \<lparr>res_output = stdout_of pre,
            res_error = stderr_of pre @ CHR 0x0A # ''Execution timed out after 10 seconds''\<rparr>"
| "exec_verdict pre (Error_Event msg) =
     Some \<lparr>res_output = [], res_error = ''Runtime error: '' @ msg\<rparr>"
| "exec_verdict pre (Close_Event code signal) =
     Some \<lparr>res_output = stdout_of pre,
            res_error = stderr_of pre @
              (case signal of
                 None \<Rightarrow> []
               | Some sg \<Rightarrow>
                   if sg = [] then [] else CHR 0x0A # ''Process terminated by signal: '' @ sg)\<rparr>"
| "exec_verdict pre e = None"

fun is_stdin_error :: "event \<Rightarrow> bool" where
  "is_stdin_error (Stdin_Error msg) = True"
| "is_stdin_error e = False"


text \<open>
  A program that exits without reading its input, so that the pending write fails; a spawn
  of the compiler that throws.
\<close>

definition unread_input_events :: "event list" where
  "unread_input_events =
     [Exit_Event (Some 0) None, Stdin_Error ''write EPIPE'', Close_Event (Some 0) None]"

definition spawn_failure :: own_properties where
  "spawn_failure = [(''errno'', ''-7''), (''code'', ''E2BIG''), (''syscall'', ''spawn'')]"

section \<open>The compile promise\<close>

lemma compile_events_append:
  "compile_events l (xs @ ys) s = compile_events l ys (compile_events l xs s)"
  by (induction xs arbitrary: s) simp_all

lemma compile_on_inv: "compile_inv s \<Longrightarrow> compile_inv (compile_on l e s)"
  by (cases e)
     (auto simp: compile_on_def compile_inv_def compile_settle_def Let_def split: if_splits)

lemma compile_events_inv: "compile_inv s \<Longrightarrow> compile_inv (compile_events l evs s)"
  by (induction evs arbitrary: s) (simp_all add: compile_on_inv)

lemma compile_spawned_inv: "compile_inv (compile_spawned cmd args)"
  by (simp add: compile_inv_def compile_spawned_def)



lemma compile_on_crashed:
  "compile_uncaught s \<noteq> None \<Longrightarrow> compile_events l evs s = s"
  by (induction evs) (simp_all add: compile_on_def)

lemma compile_events_quiet:
  "\<forall>e \<in> set pre. \<not> settles_compile e \<Longrightarrow> compile_uncaught s = None \<Longrightarrow>
     compile_events l pre s =
       s\<lparr>compileError := compileError s @ stderr_of pre,
         compileOutput := compileOutput s @ stdout_of pre\<rparr>"
proof (induction pre arbitrary: s)
  case Nil
  then show ?case by simp
next
  case (Cons e pre)
  then show ?case by (cases e) (simp_all add: compile_on_def)
qed



lemma compile_run_settled_alive:
  assumes "compile_promise (compile_run l cmd args sp) \<noteq> None"
  shows "compile_uncaught (compile_run l cmd args sp) = None"
proof (cases sp)
  case (Compile_Spawn_Throws props)
  then show ?thesis by (simp add: compile_run_def compile_threw_def)
next
  case (Compile_Spawned evs)
  have "compile_inv (compile_run l cmd args sp)"
    unfolding Compile_Spawned compile_run_def
    by simp (intro compile_events_inv compile_spawned_inv)
  with assms show ?thesis by (simp add: compile_inv_def split: if_splits)
qed

section \<open>The execute promise\<close>

lemma exec_events_append:
  "exec_events kt (xs @ ys) s = exec_events kt ys (exec_events kt xs s)"
  by (induction xs arbitrary: s) simp_all

lemma exec_on_inv: "exec_inv s \<Longrightarrow> exec_inv (exec_on kt e s)"
  by (cases e) (auto simp: exec_on_def exec_inv_def exec_settle_def Let_def split: if_splits)

lemma exec_events_inv: "exec_inv s \<Longrightarrow> exec_inv (exec_events kt evs s)"
  by (induction evs arbitrary: s) (simp_all add: exec_on_inv)

lemma exec_spawned_inv: "exec_inv (exec_spawned cmd args input ch)"
  by (simp add: exec_inv_def exec_spawned_def exec_init_def)

lemma exec_on_resolved:
  assumes "exec_isResolved s" and "exec_promise s \<noteq> None"
  shows "exec_isResolved (exec_on kt e s) \<and>
         exec_promise (exec_on kt e s) = exec_promise s \<and>
         exec_calls (exec_on kt e s) = exec_calls s \<and>
         exec_actions (exec_on kt e s) = exec_actions s \<and>
         exec_uncaught (exec_on kt e s) = exec_uncaught s"
  using assms by (cases e) (auto simp: exec_on_def)

lemma exec_events_resolved:
  "exec_isResolved s \<Longrightarrow> exec_promise s \<noteq> None \<Longrightarrow>
     exec_isResolved (exec_events kt evs s) \<and>
     exec_promise (exec_events kt evs s) = exec_promise s \<and>
     exec_calls (exec_events kt evs s) = exec_calls s \<and>
     exec_actions (exec_events kt evs s) = exec_actions s \<and>
     exec_uncaught (exec_events kt evs s) = exec_uncaught s"
proof (induction evs arbitrary: s)
  case Nil
  then show ?case by simp
next
  case (Cons e evs)
  from exec_on_resolved [OF Cons.prems, of kt e]
  have step: "exec_isResolved (exec_on kt e s)" "exec_promise (exec_on kt e s) \<noteq> None"
    and same: "exec_promise (exec_on kt e s) = exec_promise s"
      "exec_calls (exec_on kt e s) = exec_calls s"
      "exec_actions (exec_on kt e s) = exec_actions s"
      "exec_uncaught (exec_on kt e s) = exec_uncaught s"
    using Cons.prems by simp_all
  from Cons.IH [OF step] same show ?case by simp
qed

lemma exec_on_crashed: "exec_uncaught s \<noteq> None \<Longrightarrow> exec_events kt evs s = s"
  by (induction evs) (simp_all add: exec_on_def)

lemma exec_events_quiet:
  "\<forall>e \<in> set pre. \<not> settles_exec e \<Longrightarrow> exec_uncaught s = None \<Longrightarrow>
     exec_events kt pre s =
       s\<lparr>exec_output := exec_output s @ stdout_of pre,
         exec_error := exec_error s @ stderr_of pre\<rparr>"
proof (induction pre arbitrary: s)
  case Nil
  then show ?case by simp
next
  case (Cons e pre)
  then show ?case by (cases e) (simp_all add: exec_on_def)
qed



lemma exec_run_settled_alive:
  assumes "exec_promise (exec_run cmd args input sp) \<noteq> None"
  shows "exec_uncaught (exec_run cmd args input sp) = None"
proof (cases "truthy cmd")
  case False
  then show ?thesis by (simp add: exec_run_def exec_settle_def exec_init_def)
next
  case True
  show ?thesis
  proof (cases sp)
    case (Spawn_Throws msg)
    with True show ?thesis by (simp add: exec_run_def exec_settle_def exec_init_def)
  next
    case (Spawned ch)
    have "exec_inv (exec_events (kill_throws ch) (exec_schedule ch)
            (exec_spawned (the cmd) (args_or_empty args) input ch))"
      by (intro exec_events_inv exec_spawned_inv)
    with assms True Spawned show ?thesis
      by (simp add: exec_run_def exec_inv_def split: if_splits)
  qed
qed

section \<open>Actions of the two phases\<close>

lemma compile_on_actions:
  "\<not> P Kill \<Longrightarrow> \<not> P Clear_Timeout \<Longrightarrow>
     filter P (compile_actions (compile_on l e s)) = filter P (compile_actions s)"
  by (cases e) (simp_all add: compile_on_def compile_settle_def Let_def)

lemma compile_events_actions:
  "\<not> P Kill \<Longrightarrow> \<not> P Clear_Timeout \<Longrightarrow>
     filter P (compile_actions (compile_events l evs s)) = filter P (compile_actions s)"
  by (induction evs arbitrary: s) (simp_all add: compile_on_actions)

lemma exec_on_actions:
  "\<not> P Kill \<Longrightarrow> \<not> P Kill_Threw \<Longrightarrow> \<not> P Clear_Timeout \<Longrightarrow>
     filter P (exec_actions (exec_on kt e s)) = filter P (exec_actions s)"
  by (cases e) (simp_all add: exec_on_def exec_settle_def Let_def try_kill_def)

lemma exec_events_actions:
  "\<not> P Kill \<Longrightarrow> \<not> P Kill_Threw \<Longrightarrow> \<not> P Clear_Timeout \<Longrightarrow>
     filter P (exec_actions (exec_events kt evs s)) = filter P (exec_actions s)"
  by (induction evs arbitrary: s) (simp_all add: exec_on_actions)

lemma compile_run_no_removal: "filter is_removal (compile_actions (compile_run l cmd args sp)) = []"
  by (cases sp)
     (simp_all add: compile_run_def compile_threw_def compile_events_actions compile_spawned_def)

lemma compile_run_no_creation:
  "filter is_creation (compile_actions (compile_run l cmd args sp)) = []"
  by (cases sp)
     (simp_all add: compile_run_def compile_threw_def compile_events_actions compile_spawned_def)


lemma exec_run_no_removal: "filter is_removal (exec_actions (exec_run cmd args input sp)) = []"
  by (cases sp)
     (simp_all add: exec_run_def exec_settle_def exec_init_def exec_events_actions
        exec_spawned_def write_input_def)

lemma exec_run_no_creation: "filter is_creation (exec_actions (exec_run cmd args input sp)) = []"
  by (cases sp)
     (simp_all add: exec_run_def exec_settle_def exec_init_def exec_events_actions
        exec_spawned_def write_input_def)

section \<open>The first event that ends the wait\<close>

lemma first_ending_event:
  "P t \<Longrightarrow> \<exists>pre e post. xs @ [t] = pre @ e # post \<and> (\<forall>x \<in> set pre. \<not> P x) \<and> P e"
proof (induction xs)
  case Nil
  then show ?case by (intro exI [of _ "[]"] exI [of _ t]) simp
next
  case (Cons x xs)
  show ?case
  proof (cases "P x")
    case True
    then show ?thesis by (intro exI [of _ "[]"] exI [of _ x] exI [of _ "xs @ [t]"]) simp
  next
    case False
    from Cons.IH [OF Cons.prems] obtain pre e post
      where "xs @ [t] = pre @ e # post" "\<forall>y \<in> set pre. \<not> P y" "P e"
      by blast
    with False show ?thesis
      by (intro exI [of _ "x # pre"] exI [of _ e] exI [of _ post]) simp
  qed
qed


lemma compile_stdin_error_first:
  fixes cmd :: string and args :: "string list" and l :: string
  assumes sched: "compile_schedule evs = pre @ Stdin_Error msg # post"
    and quiet: "\<forall>x \<in> set pre. \<not> settles_compile x"
  defines "s \<equiv> compile_events l (compile_schedule evs) (compile_spawned cmd args)"
  shows "compile_uncaught s = Some msg" and "compile_promise s = None"
    and "compile_calls s = 0" and "compile_actions s = [Spawn cmd args]"
proof -
  define s1 where "s1 = (compile_spawned cmd args)
                     \<lparr>compileError := stderr_of pre, compileOutput := stdout_of pre\<rparr>"
  have pre: "compile_events l pre (compile_spawned cmd args) = s1"
    using compile_events_quiet [OF quiet, of "compile_spawned cmd args" l]
    by (simp add: s1_def compile_spawned_def)
  have crash: "compile_on l (Stdin_Error msg) s1 = s1\<lparr>compile_uncaught := Some msg\<rparr>"
    by (simp add: s1_def compile_on_def compile_spawned_def)
  have "compile_events l post (s1\<lparr>compile_uncaught := Some msg\<rparr>) = s1\<lparr>compile_uncaught := Some msg\<rparr>"
    by (rule compile_on_crashed) simp
  then have "s = s1\<lparr>compile_uncaught := Some msg\<rparr>"
    by (simp add: s_def sched compile_events_append pre crash)
  then show "compile_uncaught s = Some msg" and "compile_promise s = None"
    and "compile_calls s = 0" and "compile_actions s = [Spawn cmd args]"
    by (simp_all add: s1_def compile_spawned_def)
qed

lemma exec_first_event:
  fixes cmd :: string and args :: "string list" and input :: string
  assumes sched: "exec_schedule ch = pre @ e # post"
    and quiet: "\<forall>x \<in> set pre. \<not> settles_exec x"
    and verdict: "exec_verdict pre e = Some v"
  defines "s \<equiv> exec_events (kill_throws ch) (exec_schedule ch) (exec_spawned cmd args input ch)"
  shows "exec_promise s = Some v"
    and "exec_calls s = 1"
    and "exec_uncaught s = None"
    and "exec_actions s =
           Spawn cmd args # write_input input (stdin_write_throws ch)
             @ [if e = Timer_Fired then try_kill (kill_throws ch) else Clear_Timeout]"
proof -
  let ?kt = "kill_throws ch"
  let ?last = "if e = Timer_Fired then try_kill ?kt else Clear_Timeout"
  define s1 where "s1 = (exec_spawned cmd args input ch)
                     \<lparr>exec_output := stdout_of pre, exec_error := stderr_of pre\<rparr>"
  have pre: "exec_events ?kt pre (exec_spawned cmd args input ch) = s1"
    using exec_events_quiet [OF quiet, of "exec_spawned cmd args input ch" ?kt]
    by (simp add: s1_def exec_spawned_def exec_init_def)
  have step: "exec_isResolved (exec_on ?kt e s1) \<and>
      exec_promise (exec_on ?kt e s1) = Some v \<and>
      exec_calls (exec_on ?kt e s1) = 1 \<and>
      exec_uncaught (exec_on ?kt e s1) = None \<and>
      exec_actions (exec_on ?kt e s1)
        = Spawn cmd args # write_input input (stdin_write_throws ch) @ [?last]"
    using verdict
    by (cases e)
       (auto simp: s1_def exec_on_def exec_spawned_def exec_init_def exec_settle_def
          js_or_def truthy_def timeout_notice_def signal_notice_def Let_def
          split: option.splits)
  then have "exec_isResolved (exec_on ?kt e s1)" and "exec_promise (exec_on ?kt e s1) \<noteq> None"
    by simp_all
  from exec_events_resolved [OF this, where evs = post and kt = ?kt] step
  have "exec_promise (exec_events ?kt post (exec_on ?kt e s1)) = Some v"
    and "exec_calls (exec_events ?kt post (exec_on ?kt e s1)) = 1"
    and "exec_uncaught (exec_events ?kt post (exec_on ?kt e s1)) = None"
    and "exec_actions (exec_events ?kt post (exec_on ?kt e s1))
           = Spawn cmd args # write_input input (stdin_write_throws ch) @ [?last]"
    by simp_all
  then show "exec_promise s = Some v"
    and "exec_calls s = 1"
    and "exec_uncaught s = None"
    and "exec_actions s = Spawn cmd args # write_input input (stdin_write_throws ch) @ [?last]"
    by (simp_all add: s_def sched exec_events_append pre)
qed

lemma exec_stdin_error_first:
  fixes cmd :: string and args :: "string list" and input :: string
  assumes sched: "exec_schedule ch = pre @ Stdin_Error msg # post"
    and quiet: "\<forall>x \<in> set pre. \<not> settles_exec x"
  defines "s \<equiv> exec_events (kill_throws ch) (exec_schedule ch) (exec_spawned cmd args input ch)"
  shows "exec_uncaught s = Some msg" and "exec_promise s = None" and "exec_calls s = 0"
    and "exec_actions s = Spawn cmd args # write_input input (stdin_write_throws ch)"
proof -
  let ?kt = "kill_throws ch"
  define s1 where "s1 = (exec_spawned cmd args input ch)
                     \<lparr>exec_output := stdout_of pre, exec_error := stderr_of pre\<rparr>"
  have pre: "exec_events ?kt pre (exec_spawned cmd args input ch) = s1"
    using exec_events_quiet [OF quiet, of "exec_spawned cmd args input ch" ?kt]
    by (simp add: s1_def exec_spawned_def exec_init_def)
  have crash: "exec_on ?kt (Stdin_Error msg) s1 = s1\<lparr>exec_uncaught := Some msg\<rparr>"
    by (simp add: s1_def exec_on_def exec_spawned_def exec_init_def)
  have "exec_events ?kt post (s1\<lparr>exec_uncaught := Some msg\<rparr>) = s1\<lparr>exec_uncaught := Some msg\<rparr>"
    by (rule exec_on_crashed) simp
  then have "s = s1\<lparr>exec_uncaught := Some msg\<rparr>"
    by (simp add: s_def sched exec_events_append pre crash)
  then show "exec_uncaught s = Some msg" and "exec_promise s = None" and "exec_calls s = 0"
    and "exec_actions s = Spawn cmd args # write_input input (stdin_write_throws ch)"
    by (simp_all add: s1_def exec_spawned_def exec_init_def)
qed

section \<open>Unfolding the pipeline\<close>

lemmas example_defs = example_env_def example_commands_def example_child_def
  c_job_def py_job_def txt_job_def empty_job_def ruby_job_def

lemmas run_defs = runCode_def execute_and_respond_def compile_run_def compile_schedule_def
  compile_spawned_def compile_threw_def compile_on_def exec_run_def exec_schedule_def
  exec_spawned_def exec_init_def exec_on_def
  exec_settle_def compile_settle_def compile_rejection_def compile_failed_response_def
  write_input_def truthy_def js_or_def args_or_empty_def removal_def try_kill_def
  timeout_notice_def signal_notice_def no_code_def invalid_language_def


lemma compile_of_alive:
  "compile_promise (compile_of env j) = Some res \<Longrightarrow> compile_uncaught (compile_of env j) = None"
  unfolding compile_of_def by (rule compile_run_settled_alive) simp

lemma exec_of_alive:
  "exec_promise (exec_of env j) = Some res \<Longrightarrow> exec_uncaught (exec_of env j) = None"
  unfolding exec_of_def by (rule exec_run_settled_alive) simp



lemma runCode_interpreted:
  assumes "valid_job env j" and "\<not> truthy (compileCodeCommand (spec_of env j))"
  shows "runCode env j =
           execute_and_respond env j (jobID_of env j) (spec_of env j)
             [Create_Code_File (job_language j) (job_code j)]"
  using assms by (simp add: valid_job_def runCode_def Let_def)




lemma runCode_compile_resolved:
  assumes "valid_job env j" and "truthy (compileCodeCommand (spec_of env j))"
    and "compile_promise (compile_of env j) = Some Compile_Resolved"
  shows "runCode env j =
           execute_and_respond env j (jobID_of env j) (spec_of env j)
             (Create_Code_File (job_language j) (job_code j) # compile_actions (compile_of env j))"
  using assms compile_of_alive [OF assms(3)]
  by (simp add: valid_job_def runCode_def Let_def compile_of_def)

lemma execute_and_respond_eq:
  assumes "exec_promise (exec_of env j) = Some res"
  shows "execute_and_respond env j (jobID_of env j) (spec_of env j) acts =
           (Returned \<lparr>response_status = None, response_output = res_output res,
                      response_error = res_error res, response_language = job_language j,
                      response_info = language_info env (job_language j)\<rparr>,
            acts @ exec_actions (exec_of env j) @ [removal (jobID_of env j) j (spec_of env j)])"
  using assms exec_of_alive [OF assms]
  by (simp add: execute_and_respond_def exec_of_def)


lemma runCode_reaches_execute:
  assumes "reaches_execute env j"
  shows "runCode env j =
           execute_and_respond env j (jobID_of env j) (spec_of env j)
             (Create_Code_File (job_language j) (job_code j)
                # (if truthy (compileCodeCommand (spec_of env j))
                   then compile_actions (compile_of env j) else []))"
proof (cases "truthy (compileCodeCommand (spec_of env j))")
  case True
  with assms have "compile_promise (compile_of env j) = Some Compile_Resolved"
    and "valid_job env j"
    by (simp_all add: reaches_execute_def)
  with True show ?thesis by (simp add: runCode_compile_resolved)
next
  case False
  moreover from assms have "valid_job env j" by (simp add: reaches_execute_def)
  ultimately show ?thesis by (simp add: runCode_interpreted)
qed

lemma runCode_reaches_execute_eq:
  assumes "reaches_execute env j" and "exec_promise (exec_of env j) = Some res"
  shows "runCode env j =
           (Returned \<lparr>response_status = None, response_output = res_output res,
                      response_error = res_error res, response_language = job_language j,
                      response_info = language_info env (job_language j)\<rparr>,
            Create_Code_File (job_language j) (job_code j)
              # (if truthy (compileCodeCommand (spec_of env j))
                 then compile_actions (compile_of env j) else [])
              @ exec_actions (exec_of env j) @ [removal (jobID_of env j) j (spec_of env j)])"
  unfolding runCode_reaches_execute [OF assms(1)] execute_and_respond_eq [OF assms(2)]
  by simp


lemma compile_of_no_marks:
  "filter is_removal (compile_actions (compile_of env j)) = []"
  "filter is_creation (compile_actions (compile_of env j)) = []"
  by (simp_all add: compile_of_def compile_run_no_removal compile_run_no_creation)

lemma exec_of_no_marks:
  "filter is_removal (exec_actions (exec_of env j)) = []"
  "filter is_creation (exec_actions (exec_of env j)) = []"
  by (simp_all add: exec_of_def exec_run_no_removal exec_run_no_creation)


section \<open>What the first event makes of a job\<close>




lemma exec_of_spawned:
  assumes "truthy (executeCodeCommand (spec_of env j))" and "execute_spawn env = Spawned ch"
  shows "exec_of env j =
           exec_events (kill_throws ch) (exec_schedule ch)
             (exec_spawned (the (executeCodeCommand (spec_of env j)))
                (args_or_empty (executionArgs (spec_of env j))) (job_input j) ch)"
  using assms by (simp add: exec_of_def exec_run_def)

lemma exec_of_first_event:
  assumes "truthy (executeCodeCommand (spec_of env j))" and "execute_spawn env = Spawned ch"
    and "exec_schedule ch = pre @ e # post" and "\<forall>x \<in> set pre. \<not> settles_exec x"
    and "exec_verdict pre e = Some v"
  shows "exec_promise (exec_of env j) = Some v"
    and "exec_calls (exec_of env j) = 1"
    and "exec_actions (exec_of env j) =
           Spawn (the (executeCodeCommand (spec_of env j)))
               (args_or_empty (executionArgs (spec_of env j)))
             # write_input (job_input j) (stdin_write_throws ch)
             @ [if e = Timer_Fired then try_kill (kill_throws ch) else Clear_Timeout]"
  using exec_first_event(1,2,4) [OF assms(3-5)]
  by (simp_all add: exec_of_spawned [OF assms(1,2)])

lemma exec_of_stdin_error:
  assumes "truthy (executeCodeCommand (spec_of env j))" and "execute_spawn env = Spawned ch"
    and "exec_schedule ch = pre @ Stdin_Error msg # post"
    and "\<forall>x \<in> set pre. \<not> settles_exec x"
  shows "exec_uncaught (exec_of env j) = Some msg"
    and "exec_actions (exec_of env j) =
           Spawn (the (executeCodeCommand (spec_of env j)))
               (args_or_empty (executionArgs (spec_of env j)))
             # write_input (job_input j) (stdin_write_throws ch)"
  using exec_stdin_error_first(1,4) [OF assms(3,4)]
  by (simp_all add: exec_of_spawned [OF assms(1,2)])

lemma exec_of_missing:
  assumes "\<not> truthy (executeCodeCommand (spec_of env j))"
  shows "exec_promise (exec_of env j) = Some \<lparr>res_output = [], res_error = ''Executable not found''\<rparr>"
    and "exec_actions (exec_of env j) = []"
  using assms by (simp_all add: exec_of_def exec_run_def exec_settle_def exec_init_def)

lemma exec_of_spawn_throws:
  assumes "truthy (executeCodeCommand (spec_of env j))" and "execute_spawn env = Spawn_Throws msg"
  shows "exec_promise (exec_of env j) = Some \<lparr>res_output = [], res_error = ''Runtime error: '' @ msg\<rparr>"
    and "exec_actions (exec_of env j) =
           [Spawn (the (executeCodeCommand (spec_of env j))) (args_or_empty (executionArgs (spec_of env j)))]"
  using assms by (simp_all add: exec_of_def exec_run_def exec_settle_def exec_init_def)

section \<open>Validation\<close>

text \<open>
  Claim C7. A job whose code is the empty string, or whose language is not in the supported
  set, is rejected at once with an object of status 400: the pipeline has made no call by
  then, so no code file was created and no process was spawned.
\<close>

theorem invalid_request_rejected:
  assumes "job_code j = [] \<or> job_language j \<notin> set (supportedLanguages env)"
  shows "\<exists>t. runCode env j = (Raised t, []) \<and> thrown_status t = 400"
  using assms by (auto simp: runCode_def no_code_def invalid_language_def)

theorem invalid_request_rejected_witness:
  "(job_code empty_job = [] \<or> job_language empty_job \<notin> set (supportedLanguages (example_env [] (example_child []))))
   \<and> (\<exists>t. runCode (example_env [] (example_child [])) empty_job = (Raised t, []) \<and> thrown_status t = 400)"
  using invalid_request_rejected [of empty_job "example_env [] (example_child [])"]
  by (simp add: empty_job_def)

section \<open>Infrastructure errors of the execute phase\<close>

text \<open>
  Claim C8. For a job that reaches the execute phase: when the registry's entry has no
  execute command, when \<^verbatim>\<open>spawn\<close> raises, or when the child's first settling event is
  \<^verbatim>\<open>error\<close>, the object returned has an empty \<^verbatim>\<open>output\<close> and a non-empty
  \<^verbatim>\<open>error\<close> that names the condition ("Executable not found", or "Runtime error: " and
  the message); the removal is still the last action, called once; and with no execute command
  the execute phase makes no call at all, so no process is spawned for it.
\<close>

theorem execute_infrastructure_error:
  assumes reach: "reaches_execute env j"
    and cause:
      "\<not> truthy (executeCodeCommand (spec_of env j))
       \<or> (truthy (executeCodeCommand (spec_of env j)) \<and> execute_spawn env = Spawn_Throws msg)
       \<or> (truthy (executeCodeCommand (spec_of env j)) \<and> execute_spawn env = Spawned ch \<and>
           exec_schedule ch = pre @ Error_Event msg # post \<and> (\<forall>e \<in> set pre. \<not> settles_exec e))"
  shows "\<exists>r acts. runCode env j =
             (Returned r, acts @ [Remove_Code_File (jobID_of env j) (job_language j)
                                    (outputExt (spec_of env j))]) \<and>
           filter is_removal acts = [] \<and>
           response_output r = [] \<and>
           response_error r \<noteq> [] \<and>
           response_error r =
             (if truthy (executeCodeCommand (spec_of env j)) then ''Runtime error: '' @ msg
              else ''Executable not found'') \<and>
           (\<not> truthy (executeCodeCommand (spec_of env j)) \<longrightarrow>
              exec_actions (exec_of env j) = [])"
proof -
  let ?res = "\<lparr>res_output = [],
      res_error = (if truthy (executeCodeCommand (spec_of env j)) then ''Runtime error: '' @ msg
              else ''Executable not found'')\<rparr>"
  from cause have both: "exec_promise (exec_of env j) = Some ?res \<and>
      (\<not> truthy (executeCodeCommand (spec_of env j)) \<longrightarrow> exec_actions (exec_of env j) = [])"
  proof (elim disjE conjE)
    assume "\<not> truthy (executeCodeCommand (spec_of env j))"
    then show ?thesis using exec_of_missing [of env j] by simp
  next
    assume "truthy (executeCodeCommand (spec_of env j))" "execute_spawn env = Spawn_Throws msg"
    then show ?thesis using exec_of_spawn_throws(1) [of env j msg] by simp
  next
    assume cmd: "truthy (executeCodeCommand (spec_of env j))"
      and rest: "execute_spawn env = Spawned ch"
        "exec_schedule ch = pre @ Error_Event msg # post" "\<forall>e \<in> set pre. \<not> settles_exec e"
    have "exec_verdict pre (Error_Event msg) =
        Some \<lparr>res_output = [], res_error = ''Runtime error: '' @ msg\<rparr>"
      by simp
    from exec_of_first_event(1) [OF cmd rest this] cmd show ?thesis by simp
  qed
  then have res: "exec_promise (exec_of env j) = Some ?res"
    and idle: "\<not> truthy (executeCodeCommand (spec_of env j)) \<longrightarrow> exec_actions (exec_of env j) = []"
    by simp_all
  define acts where
    "acts = Create_Code_File (job_language j) (job_code j)
              # (if truthy (compileCodeCommand (spec_of env j))
                 then compile_actions (compile_of env j) else [])
              @ exec_actions (exec_of env j)"
  have run: "runCode env j =
      (Returned \<lparr>response_status = None, response_output = res_output ?res,
                  response_error = res_error ?res, response_language = job_language j,
                  response_info = language_info env (job_language j)\<rparr>,
       acts @ [Remove_Code_File (jobID_of env j) (job_language j) (outputExt (spec_of env j))])"
    unfolding runCode_reaches_execute_eq [OF reach res] by (simp add: acts_def removal_def)
  have "filter is_removal acts = []"
    by (simp add: acts_def compile_of_no_marks exec_of_no_marks)
  with run idle show ?thesis
    by (intro exI [of _ "\<lparr>response_status = None, response_output = res_output ?res,
                  response_error = res_error ?res, response_language = job_language j,
                  response_info = language_info env (job_language j)\<rparr>"] exI [of _ acts])
       simp
qed

theorem execute_infrastructure_error_witness:
  "reaches_execute (example_env [] (example_child [Error_Event ''spawn python3 ENOENT'', Close_Event None None])) py_job
   \<and> truthy (executeCodeCommand (spec_of (example_env [] (example_child [Error_Event ''spawn python3 ENOENT'', Close_Event None None])) py_job))
   \<and> (\<exists>r acts. runCode (example_env [] (example_child [Error_Event ''spawn python3 ENOENT'', Close_Event None None])) py_job =
             (Returned r, acts @ [Remove_Code_File ''job1'' ''py'' None]) \<and>
           filter is_removal acts = [] \<and>
           response_output r = [] \<and>
           response_error r \<noteq> [] \<and>
           response_error r = ''Runtime error: spawn python3 ENOENT'')"
  using execute_infrastructure_error [of "example_env [] (example_child [Error_Event ''spawn python3 ENOENT'', Close_Event None None])" py_job
     "''spawn python3 ENOENT''"
     "\<lparr>events = [Error_Event ''spawn python3 ENOENT'', Close_Event None None], kill_throws = False, stdin_write_throws = False\<rparr>"
     "[]" "[Close_Event None None, Timer_Fired]"]
  by (simp add: example_defs reaches_execute_def valid_job_def truthy_def exec_schedule_def)

section \<open>Removal of the artifact\<close>


text \<open>
  Claim C1, on a program that does not read its input. The interpreter exits, the pending
  write to its stdin fails and the stream emits \<^verbatim>\<open>error\<close> before the child's
  \<^verbatim>\<open>close\<close>: the \<^verbatim>\<open>try\<close> around \<^verbatim>\<open>stdin.write\<close> does not see it and no listener
  is on the stream, so the process ends with the exception while the pipeline waits. The
  code file was created and the removal is never called.
\<close>

theorem stdin_error_leaves_artifact:
  "runCode (example_env [] (example_child unread_input_events)) py_job =
     (Crashed ''write EPIPE'',
      [Create_Code_File ''py'' ''print(1)'', Spawn ''python3'' [''job1.py''],
       Stdin_Write ''7'', Stdin_End]) \<and>
   filter is_removal (snd (runCode (example_env [] (example_child unread_input_events)) py_job))
     = []"
  by (simp add: example_defs run_defs unread_input_events_def)

section \<open>Timeout of the execute phase\<close>



section \<open>Failure of the compile phase\<close>




section \<open>Settling a promise once\<close>





text \<open>
  Every run has a first event that ends the wait, since the deadline elapses in the end.
\<close>

lemma compile_schedule_first:
  "\<exists>pre e post. compile_schedule evs = pre @ e # post \<and>
     (\<forall>x \<in> set pre. \<not> settles_compile x) \<and> settles_compile e"
  unfolding compile_schedule_def by (rule first_ending_event) simp

lemma exec_schedule_first:
  "\<exists>pre e post. exec_schedule ch = pre @ e # post \<and>
     (\<forall>x \<in> set pre. \<not> settles_exec x) \<and> settles_exec e"
  unfolding exec_schedule_def by (rule first_ending_event) simp



section \<open>Raised and returned outcomes\<close>












section \<open>The status of the response\<close>




section \<open>The promise of the Java runner\<close>

lemma java_events_append: "java_events (xs @ ys) s = java_events ys (java_events xs s)"
  by (induction xs arbitrary: s) simp_all

lemma java_on_actions: "java_actions (java_on e s) = java_actions s"
  by (cases e) (simp_all add: java_on_def java_settle_def)

lemma java_events_actions: "java_actions (java_events evs s) = java_actions s"
  by (induction evs arbitrary: s) (simp_all add: java_on_actions)

lemma java_events_data:
  "\<forall>e \<in> set pre. is_data e \<Longrightarrow> java_uncaught s = None \<Longrightarrow>
     java_events pre s =
       s\<lparr>outputString := outputString s @ stdout_of pre,
         errorString := errorString s @ stderr_of pre\<rparr>"
proof (induction pre arbitrary: s)
  case Nil
  then show ?case by simp
next
  case (Cons e pre)
  then show ?case by (cases e) (simp_all add: java_on_def)
qed

lemma java_on_settled:
  assumes "java_promise s = Some r" and "java_uncaught s = None"
  shows "java_promise (java_on e s) = Some r \<and> java_uncaught (java_on e s) = None"
  using assms by (cases e) (simp_all add: java_on_def java_settle_def)

lemma java_events_settled:
  "java_promise s = Some r \<Longrightarrow> java_uncaught s = None \<Longrightarrow>
     java_promise (java_events evs s) = Some r \<and> java_uncaught (java_events evs s) = None"
proof (induction evs arbitrary: s)
  case Nil
  then show ?case by simp
next
  case (Cons e evs)
  from java_on_settled [OF Cons.prems, of e] Cons.IH [of "java_on e s"]
  show ?case by simp
qed

lemma executeJava_never_kills: "filter is_kill (snd (executeJava cp now codeFile inputs evs)) = []"
  by (simp add: executeJava_def java_events_actions java_spawned_def Let_def)

lemma executeJava_exit_first:
  assumes sched: "evs @ [Timer_Fired] = pre @ Exit_Event code signal # post"
    and data: "\<forall>e \<in> set pre. is_data e"
  shows "fst (executeJava cp now codeFile inputs evs) =
           Java_Returned
             (if stderr_of pre = []
              then \<lparr>success = True, timestamp = now, java_output = Some (stdout_of pre),
                    java_error = None\<rparr>
              else \<lparr>success = False, timestamp = now, java_output = None,
                    java_error = Some (stderr_of pre)\<rparr>)"
proof -
  let ?s0 = "java_spawned (cp codeFile) inputs"
  let ?s1 = "?s0\<lparr>outputString := stdout_of pre, errorString := stderr_of pre\<rparr>"
  let ?r = "if stderr_of pre = [] then Inr (stdout_of pre) else Inl (stderr_of pre)"
  have pre: "java_events pre ?s0 = ?s1"
    using java_events_data [OF data, of ?s0] by (simp add: java_spawned_def)
  have "java_promise (java_on (Exit_Event code signal) ?s1) = Some ?r"
    and "java_uncaught (java_on (Exit_Event code signal) ?s1) = None"
    by (simp_all add: java_on_def java_settle_def java_spawned_def)
  from java_events_settled [OF this, of post]
  have "java_promise (java_events (evs @ [Timer_Fired]) ?s0) = Some ?r"
    and "java_uncaught (java_events (evs @ [Timer_Fired]) ?s0) = None"
    by (simp_all add: sched java_events_append pre)
  then show ?thesis
    by (simp add: executeJava_def Let_def)
qed

section \<open>Errors of the program itself\<close>

text \<open>
  Claim C5, as the source has it. In the Java runner a program that wrote to stdout and to
  stderr and then exited with code 1, with no spawn failure and no timeout, is answered with
  \<^verbatim>\<open>{success: false, error}\<close>: the stdout text accumulated is not returned.
\<close>

theorem java_runner_drops_output_on_stderr:
  "executeJava codes_dir (0::nat) ''Main.java'' None crash_events =
     (Java_Returned \<lparr>success = False, timestamp = 0, java_output = None,
                     java_error = Some ''Exception in thread main''\<rparr>,
      [Spawn ''java'' [''/app/codes/Main.java'']]) \<and>
   stdout_of crash_events = ''partial''"
  by (simp add: executeJava_def crash_events_def codes_dir_def java_spawned_def java_on_def
      java_settle_def truthy_def)

text \<open>
  Claim C5, amended. In the pipeline \<^verbatim>\<open>runCode\<close>, when the first event to end the wait
  of the execute phase is a \<^verbatim>\<open>close\<close> without a signal (whatever the exit code and
  whatever was written to stderr) and the child's stdin reports no error, the pipeline returns an object without status whose
  \<^verbatim>\<open>output\<close> is the accumulated stdout and whose \<^verbatim>\<open>error\<close> is the accumulated
  stderr, verbatim. In the Java runner, when \<^verbatim>\<open>exit\<close> comes after nothing but output,
  the runner returns and does not raise: \<^verbatim>\<open>{success: true, output}\<close> with the
  accumulated stdout if nothing was written to stderr, else \<^verbatim>\<open>{success: false, error}\<close>
  with the accumulated stderr and no output.
\<close>

theorem program_error_is_returned:
  "(reaches_execute env j \<and> truthy (executeCodeCommand (spec_of env j)) \<and>
    execute_spawn env = Spawned ch \<and>
    exec_schedule ch = pre @ Close_Event code signal # post \<and>
    (\<forall>e \<in> set pre. \<not> settles_exec e) \<and> (\<forall>e \<in> set post. \<not> is_stdin_error e) \<and>
    (signal = None \<or> signal = Some []) \<longrightarrow>
      (\<exists>r. fst (runCode env j) = Returned r \<and> response_status r = None \<and>
           response_output r = stdout_of pre \<and> response_error r = stderr_of pre)) \<and>
   (evs @ [Timer_Fired] = pre' @ Exit_Event code' signal' # post' \<and>
    (\<forall>e \<in> set pre'. is_data e) \<longrightarrow>
      fst (executeJava cp now codeFile inputs evs) =
        Java_Returned
          (if stderr_of pre' = []
           then \<lparr>success = True, timestamp = now, java_output = Some (stdout_of pre'),
                 java_error = None\<rparr>
           else \<lparr>success = False, timestamp = now, java_output = None,
                 java_error = Some (stderr_of pre')\<rparr>))"
proof (rule conjI; rule impI; (elim conjE)?)
  assume reach: "reaches_execute env j"
    and rest: "truthy (executeCodeCommand (spec_of env j))"
      "execute_spawn env = Spawned ch" "exec_schedule ch = pre @ Close_Event code signal # post"
      "\<forall>e \<in> set pre. \<not> settles_exec e"
    and late: "\<forall>e \<in> set post. \<not> is_stdin_error e"
    and nosig: "signal = None \<or> signal = Some []"
  from nosig have "exec_verdict pre (Close_Event code signal) =
      Some \<lparr>res_output = stdout_of pre, res_error = stderr_of pre\<rparr>"
    by auto
  from exec_of_first_event(1) [OF rest this]
  have res: "exec_promise (exec_of env j) =
      Some \<lparr>res_output = stdout_of pre, res_error = stderr_of pre\<rparr>" .
  show "\<exists>r. fst (runCode env j) = Returned r \<and> response_status r = None \<and>
           response_output r = stdout_of pre \<and> response_error r = stderr_of pre"
    unfolding runCode_reaches_execute_eq [OF reach res] by simp
next
  assume "evs @ [Timer_Fired] = pre' @ Exit_Event code' signal' # post'"
    "\<forall>e \<in> set pre'. is_data e"
  then show "fst (executeJava cp now codeFile inputs evs) =
        Java_Returned
          (if stderr_of pre' = []
           then \<lparr>success = True, timestamp = now, java_output = Some (stdout_of pre'),
                 java_error = None\<rparr>
           else \<lparr>success = False, timestamp = now, java_output = None,
                 java_error = Some (stderr_of pre')\<rparr>)"
    by (rule executeJava_exit_first)
qed

theorem program_error_is_returned_witness:
  "reaches_execute (example_env [] (example_child crash_events)) py_job \<and>
   truthy (executeCodeCommand (spec_of (example_env [] (example_child crash_events)) py_job)) \<and>
   \<not> settles_exec (Stdout_Data ''partial'') \<and>
   \<not> settles_exec (Stderr_Data ''Exception in thread main'') \<and>
   \<not> settles_exec (Exit_Event (Some 1) None) \<and>
   (\<exists>r. fst (runCode (example_env [] (example_child crash_events)) py_job) = Returned r \<and>
        response_status r = None \<and> response_output r = ''partial'' \<and>
        response_error r = ''Exception in thread main'') \<and>
   is_data (Stdout_Data ''partial'') \<and> is_data (Stderr_Data ''Exception in thread main'') \<and>
   fst (executeJava codes_dir (0::nat) ''Main.java'' None crash_events) =
     Java_Returned \<lparr>success = False, timestamp = 0, java_output = None,
                    java_error = Some ''Exception in thread main''\<rparr>"
  using program_error_is_returned [where env = "example_env [] (example_child crash_events)"
      and j = py_job
      and ch = "\<lparr>events = crash_events, kill_throws = False, stdin_write_throws = False\<rparr>"
      and pre = "[Stdout_Data ''partial'', Stderr_Data ''Exception in thread main'', Exit_Event (Some 1) None]"
      and code = "Some 1" and signal = None and post = "[Timer_Fired]"
      and evs = crash_events
      and pre' = "[Stdout_Data ''partial'', Stderr_Data ''Exception in thread main'']"
      and code' = "Some 1" and signal' = None and post' = "[Close_Event (Some 1) None, Timer_Fired]"
      and cp = codes_dir and now = "0::nat" and codeFile = "''Main.java''" and inputs = None]
  by (simp add: example_defs crash_events_def reaches_execute_def valid_job_def truthy_def
      exec_schedule_def)

section \<open>Killing the child at the deadline\<close>

text \<open>
  In the execute phase of the pipeline the timer callback calls \<^verbatim>\<open>kill("SIGKILL")\<close>
  inside a \<^verbatim>\<open>try\<close>: whether or not the call raises, the promise is resolved and the
  pipeline goes on to the removal and returns.
\<close>

lemma execute_timeout_kills:
  assumes "reaches_execute env j"
    and "truthy (executeCodeCommand (spec_of env j))"
    and "execute_spawn env = Spawned ch"
    and "exec_schedule ch = pre @ Timer_Fired # post"
    and "\<forall>e \<in> set pre. \<not> settles_exec e"
  shows "\<exists>r acts. runCode env j =
           (Returned r, acts @ [try_kill (kill_throws ch),
                                Remove_Code_File (jobID_of env j) (job_language j)
                                  (outputExt (spec_of env j))]) \<and>
         is_kill (try_kill (kill_throws ch))"
proof -
  define front where
    "front = Create_Code_File (job_language j) (job_code j)
               # (if truthy (compileCodeCommand (spec_of env j))
                  then compile_actions (compile_of env j) else [])
               @ Spawn (the (executeCodeCommand (spec_of env j)))
                   (args_or_empty (executionArgs (spec_of env j)))
               # write_input (job_input j) (stdin_write_throws ch)"
  define r :: "'a response" where
    "r = \<lparr>response_status = None, response_output = stdout_of pre,
          response_error = stderr_of pre @ CHR 0x0A # ''Execution timed out after 10 seconds'',
          response_language = job_language j,
          response_info = language_info env (job_language j)\<rparr>"
  have verdict: "exec_verdict pre Timer_Fired =
      Some \<lparr>res_output = stdout_of pre,
             res_error = stderr_of pre @ CHR 0x0A # ''Execution timed out after 10 seconds''\<rparr>"
    by simp
  have "runCode env j =
      (Returned r,
       front @ [try_kill (kill_throws ch),
                Remove_Code_File (jobID_of env j) (job_language j) (outputExt (spec_of env j))])"
    unfolding runCode_reaches_execute_eq [OF assms(1) exec_of_first_event(1) [OF assms(2-5) verdict]]
      exec_of_first_event(3) [OF assms(2-5) verdict]
    by (simp add: front_def r_def removal_def)
  moreover have "is_kill (try_kill (kill_throws ch))"
    by (simp add: try_kill_def)
  ultimately show ?thesis by (intro exI conjI)
qed

text \<open>
  Claim C6, on the Java runner. A Java program that never exits lets the 8 second timer
  fire: the callback only rejects the promise. The runner returns the timeout message and
  its only action is the spawn: no kill is sent, the child keeps running.
\<close>

theorem java_timeout_leaves_child_running:
  "executeJava codes_dir (0::nat) ''Loop.java'' None [] =
     (Java_Returned \<lparr>success = False, timestamp = 0, java_output = None,
                     java_error = Some java_timeout_message\<rparr>,
      [Spawn ''java'' [''/app/codes/Loop.java'']]) \<and>
   filter is_kill (snd (executeJava codes_dir (0::nat) ''Loop.java'' None [])) = []"
  by (simp add: executeJava_def codes_dir_def java_spawned_def java_on_def
      java_settle_def truthy_def)

section \<open>Runs of the pipeline on the concrete registry\<close>

text \<open>
  An interpreted program that prints and closes; a compiler that reports an error; a compiled
  program that never ends; a language without an execute command; a program ended by a
  signal. Each is evaluated with its whole trace of actions.
\<close>

lemma scenario_interpreted_print:
  "runCode (example_env [] (example_child [Stdout_Data ''1'', Exit_Event (Some 0) None,
                                            Close_Event (Some 0) None])) py_job =
     (Returned \<lparr>response_status = None, response_output = ''1'', response_error = [],
                 response_language = ''py'', response_info = ''about py''\<rparr>,
      [Create_Code_File ''py'' ''print(1)'', Spawn ''python3'' [''job1.py''], Stdin_Write ''7'',
       Stdin_End, Clear_Timeout, Remove_Code_File ''job1'' ''py'' None])"
  by (simp add: example_defs run_defs)

lemma scenario_compile_error:
  "runCode (example_env [Stderr_Data ''main.c:1: error'', Exit_Event (Some 1) None]
              (example_child [Stdout_Data ''never''])) c_job =
     (Returned \<lparr>response_status = Some 200, response_output = [],
                 response_error = ''main.c:1: error'', response_language = ''c'',
                 response_info = ''about c''\<rparr>,
      [Create_Code_File ''c'' ''int main(){}'', Spawn ''gcc'' [''job1.c''], Clear_Timeout,
       Remove_Code_File ''job1'' ''c'' (Some ''out'')])"
  by (simp add: example_defs run_defs)

lemma scenario_infinite_loop:
  "runCode (example_env [Exit_Event (Some 0) None] (example_child [Stdout_Data ''tick''])) c_job =
     (Returned \<lparr>response_status = None, response_output = ''tick'',
                 response_error = timeout_notice, response_language = ''c'',
                 response_info = ''about c''\<rparr>,
      [Create_Code_File ''c'' ''int main(){}'', Spawn ''gcc'' [''job1.c''], Clear_Timeout,
       Spawn ''job1.out'' [], Stdin_End, Kill, Remove_Code_File ''job1'' ''c'' (Some ''out'')])"
  by (simp add: example_defs run_defs)

lemma scenario_missing_executable:
  "runCode (example_env [] (example_child [])) txt_job =
     (Returned \<lparr>response_status = None, response_output = [],
                 response_error = ''Executable not found'', response_language = ''txt'',
                 response_info = ''about txt''\<rparr>,
      [Create_Code_File ''txt'' ''hello'', Remove_Code_File ''job1'' ''txt'' None])"
  by (simp add: example_defs run_defs)

lemma scenario_killed_by_signal:
  "fst (runCode (example_env [] (example_child [Stderr_Data ''segfault'',
                                                 Close_Event None (Some ''SIGSEGV'')])) py_job) =
     Returned \<lparr>response_status = None, response_output = [],
                response_error = ''segfault'' @ signal_notice ''SIGSEGV'', response_language = ''py'',
                response_info = ''about py''\<rparr>"
  by (simp add: example_defs run_defs)

lemma scenario_compile_spawn_throws:
  "runCode ((example_env [] (example_child [Stdout_Data ''never'']))
              \<lparr>compile_spawn := Compile_Spawn_Throws spawn_failure\<rparr>) c_job =
     (Returned_Error_Object
        [(''errno'', ''-7''), (''code'', ''E2BIG''), (''syscall'', ''spawn'')] ''about c'',
      [Create_Code_File ''c'' ''int main(){}'', Spawn ''gcc'' [''job1.c''],
       Remove_Code_File ''job1'' ''c'' (Some ''out'')])"
  by (simp add: example_defs run_defs spawn_failure_def)

end
